theory Spec2Isabelle
  imports Main "HOL-Library.Word"
begin

section \<open>Parsed JSON documents\<close>

text \<open>
  The value that \<^verbatim>\<open>json.load\<close> hands to \<^verbatim>\<open>flatten_json_to_rows\<close>.
  A Python \<^verbatim>\<open>dict\<close> is an association list in insertion order (the order
  \<^verbatim>\<open>.items()\<close> yields); its keys are distinct in every parsed document.
  A Python \<^verbatim>\<open>float\<close> is kept as its 64-bit pattern: the program never computes
  with the numbers, it only copies them.
\<close>

datatype json =
    JNull
  | JBool bool
  | JInt int
  | JFloat "64 word"
  | JStr string
  | JArr "json list"
  | JObj "(string \<times> json) list"

datatype error = AttributeError | TypeError

text \<open>\<^verbatim>\<open>obj.get(key, default)\<close>: only a dict has the method.\<close>

definition py_get :: "json \<Rightarrow> string \<Rightarrow> json \<Rightarrow> error + json" where
  "py_get obj key dflt =
     (case obj of
        JObj kvs \<Rightarrow> Inr (case map_of kvs key of Some v \<Rightarrow> v | None \<Rightarrow> dflt)
      | _ \<Rightarrow> Inl AttributeError)"

text \<open>\<^verbatim>\<open>obj.items()\<close>: only a dict has the method.\<close>

definition py_items :: "json \<Rightarrow> error + (string \<times> json) list" where
  "py_items obj = (case obj of JObj kvs \<Rightarrow> Inr kvs | _ \<Rightarrow> Inl AttributeError)"

text \<open>
  \<^verbatim>\<open>for x in obj\<close>: a list yields its elements, a dict its keys, a string its
  characters; nothing else is iterable.
\<close>

definition py_iter :: "json \<Rightarrow> error + json list" where
  "py_iter obj =
     (case obj of
        JArr xs \<Rightarrow> Inr xs
      | JObj kvs \<Rightarrow> Inr (map (\<lambda>kv. JStr (fst kv)) kvs)
      | JStr s \<Rightarrow> Inr (map (\<lambda>c. JStr [c]) s)
      | _ \<Rightarrow> Inl TypeError)"

text \<open>Sequencing of steps that may raise: the first exception ends the run.\<close>

definition bind_res :: "error + 'a \<Rightarrow> ('a \<Rightarrow> error + 'b) \<Rightarrow> error + 'b" where
  "bind_res m f = (case m of Inl e \<Rightarrow> Inl e | Inr v \<Rightarrow> f v)"

section \<open>Output rows\<close>

text \<open>
  One dict of the list that \<^verbatim>\<open>flatten_json_to_rows\<close> returns. \<^verbatim>\<open>Level\<close> is
  always a string literal of the program; every other column holds whatever the document
  held (or the default), unconverted.
\<close>

record row =
  Level :: string
  Department_Code :: json
  Department_Name :: json
  Agency_Code :: json
  Agency_Name :: json
  Sub_Agency_Code :: json
  Sub_Agency_Name :: json
  House :: json
  Increase :: json
  Decrease :: json
  Net :: json
  Senate :: json

section \<open>The flattener\<close>

text \<open>
  The five numeric reads of a row literal, in source order, followed by the append.
  Every row literal of the program ends with these five \<^verbatim>\<open>.get(..., 0)\<close> calls
  on the node the row is for.
\<close>

definition append_row ::
  "string \<Rightarrow> json \<Rightarrow> json \<Rightarrow> json \<Rightarrow> json \<Rightarrow> json \<Rightarrow> json \<Rightarrow> json \<Rightarrow> row list
     \<Rightarrow> error + row list" where
  "append_row lvl dc dn ac an sc sn node rows =
     bind_res (py_get node ''house'' (JInt 0)) (\<lambda>h.
     bind_res (py_get node ''increase'' (JInt 0)) (\<lambda>i.
     bind_res (py_get node ''decrease'' (JInt 0)) (\<lambda>d.
     bind_res (py_get node ''net'' (JInt 0)) (\<lambda>n.
     bind_res (py_get node ''senate'' (JInt 0)) (\<lambda>s.
       Inr (rows @
         [\<lparr>Level = lvl,
           Department_Code = dc, Department_Name = dn,
           Agency_Code = ac, Agency_Name = an,
           Sub_Agency_Code = sc, Sub_Agency_Name = sn,
           House = h, Increase = i, Decrease = d, Net = n, Senate = s\<rparr>]))))))"

text \<open>\<^verbatim>\<open>for key, values in summary.items(): rows.append({...})\<close>\<close>

fun summary_loop :: "(string \<times> json) list \<Rightarrow> row list \<Rightarrow> error + row list" where
  "summary_loop [] rows = Inr rows"
| "summary_loop ((key, values) # rest) rows =
     bind_res
       (append_row ''Summary'' (JStr '''') (JStr key) (JStr '''') (JStr '''')
          (JStr '''') (JStr '''') values rows)
       (summary_loop rest)"

text \<open>\<^verbatim>\<open>for sub_agency in sub_agencies: ...\<close>\<close>

fun sub_agency_loop ::
  "json \<Rightarrow> json \<Rightarrow> json \<Rightarrow> json \<Rightarrow> json list \<Rightarrow> row list \<Rightarrow> error + row list" where
  "sub_agency_loop dept_code dept_name agency_code agency_name [] rows = Inr rows"
| "sub_agency_loop dept_code dept_name agency_code agency_name (sub_agency # rest) rows =
     bind_res (py_get sub_agency ''code'' (JStr '''')) (\<lambda>sub_agency_code.
     bind_res (py_get sub_agency ''name'' (JStr '''')) (\<lambda>sub_agency_name.
     bind_res
       (append_row ''Sub-Agency'' dept_code dept_name agency_code agency_name
          sub_agency_code sub_agency_name sub_agency rows)
       (sub_agency_loop dept_code dept_name agency_code agency_name rest)))"

text \<open>\<^verbatim>\<open>for agency in agencies: ...\<close> inside the department loop.\<close>

fun agency_loop :: "json \<Rightarrow> json \<Rightarrow> json list \<Rightarrow> row list \<Rightarrow> error + row list" where
  "agency_loop dept_code dept_name [] rows = Inr rows"
| "agency_loop dept_code dept_name (agency # rest) rows =
     bind_res (py_get agency ''code'' (JStr '''')) (\<lambda>agency_code.
     bind_res (py_get agency ''name'' (JStr '''')) (\<lambda>agency_name.
     bind_res
       (append_row ''Agency'' dept_code dept_name agency_code agency_name
          (JStr '''') (JStr '''') agency rows) (\<lambda>rows1.
     bind_res (py_get agency ''sub_agencies'' (JArr [])) (\<lambda>sub_agencies.
     bind_res (py_iter sub_agencies) (\<lambda>subs.
     bind_res
       (sub_agency_loop dept_code dept_name agency_code agency_name subs rows1)
       (agency_loop dept_code dept_name rest))))))"

text \<open>\<^verbatim>\<open>for dept in departments: ...\<close>\<close>

fun department_loop :: "json list \<Rightarrow> row list \<Rightarrow> error + row list" where
  "department_loop [] rows = Inr rows"
| "department_loop (dept # rest) rows =
     bind_res (py_get dept ''code'' (JStr '''')) (\<lambda>dept_code.
     bind_res (py_get dept ''name'' (JStr '''')) (\<lambda>dept_name.
     bind_res
       (append_row ''Department'' dept_code dept_name (JStr '''') (JStr '''')
          (JStr '''') (JStr '''') dept rows) (\<lambda>rows1.
     bind_res (py_get dept ''agencies'' (JArr [])) (\<lambda>agencies.
     bind_res (py_iter agencies) (\<lambda>ags.
     bind_res (agency_loop dept_code dept_name ags rows1)
       (department_loop rest))))))"

text \<open>\<^verbatim>\<open>for agency in fund.get('agencies', []): ...\<close>\<close>

fun spf_agency_loop :: "json \<Rightarrow> json \<Rightarrow> json list \<Rightarrow> row list \<Rightarrow> error + row list" where
  "spf_agency_loop fund_code fund_name [] rows = Inr rows"
| "spf_agency_loop fund_code fund_name (agency # rest) rows =
     bind_res (py_get agency ''code'' (JStr '''')) (\<lambda>agency_code.
     bind_res (py_get agency ''name'' (JStr '''')) (\<lambda>agency_name.
     bind_res
       (append_row ''SPF Agency'' fund_code fund_name agency_code agency_name
          (JStr '''') (JStr '''') agency rows)
       (spf_agency_loop fund_code fund_name rest)))"

text \<open>\<^verbatim>\<open>for fund in spf: ...\<close>\<close>

fun fund_loop :: "json list \<Rightarrow> row list \<Rightarrow> error + row list" where
  "fund_loop [] rows = Inr rows"
| "fund_loop (fund # rest) rows =
     bind_res (py_get fund ''code'' (JStr '''')) (\<lambda>fund_code.
     bind_res (py_get fund ''name'' (JStr '''')) (\<lambda>fund_name.
     bind_res
       (append_row ''Special Purpose Fund'' fund_code fund_name (JStr '''') (JStr '''')
          (JStr '''') (JStr '''') fund rows) (\<lambda>rows1.
     bind_res (py_get fund ''agencies'' (JArr [])) (\<lambda>agencies.
     bind_res (py_iter agencies) (\<lambda>ags.
     bind_res (spf_agency_loop fund_code fund_name ags rows1)
       (fund_loop rest))))))"

definition flatten_json_to_rows :: "json \<Rightarrow> error + row list" where
  "flatten_json_to_rows data =
     bind_res (py_get data ''COMMITTEE_REPORT_HBN_4058'' (JObj [])) (\<lambda>report.
     bind_res (py_get report ''summary'' (JObj [])) (\<lambda>summary.
     bind_res (py_items summary) (\<lambda>entries.
     bind_res (summary_loop entries []) (\<lambda>rows1.
     bind_res (py_get report ''DEPARTMENTS'' (JArr [])) (\<lambda>departments.
     bind_res (py_iter departments) (\<lambda>depts.
     bind_res (department_loop depts rows1) (\<lambda>rows2.
     bind_res (py_get report ''SPECIAL_PURPOSE_FUNDS'' (JArr [])) (\<lambda>spf.
     bind_res (py_iter spf) (\<lambda>funds.
       fund_loop funds rows2)))))))))"

section \<open>The command-line program\<close>

text \<open>
  \<^verbatim>\<open>main\<close> reads and writes files and prints. The file system is a map from paths
  to the bytes of the file there (no entry: \<^verbatim>\<open>open\<close> raises
  \<^verbatim>\<open>FileNotFoundError\<close>); the lines printed on standard output are collected in
  order; the exit status is 0 for a normal return and 1 for \<^verbatim>\<open>sys.exit(1)\<close> and
  for an uncaught exception, whose traceback goes to standard error and is not kept.

  Three library facilities are parameters, each with every way it can end:
  \<^item> \<open>json_load\<close>, what \<^verbatim>\<open>open(..., encoding='utf-8')\<close> and
    \<^verbatim>\<open>json.load\<close> make of the bytes of a file: a document, a
    \<^verbatim>\<open>JSONDecodeError\<close> with its message, or any other exception (a
    \<^verbatim>\<open>UnicodeDecodeError\<close> for bytes that are not UTF-8, a
    \<^verbatim>\<open>RecursionError\<close> for nesting too deep, a \<^verbatim>\<open>ValueError\<close> for an
    integer literal beyond the digit limit), which \<^verbatim>\<open>main\<close> does not catch;
  \<^item> \<open>write_row\<close>, the bytes that \<^verbatim>\<open>csv.DictWriter\<close> and the file write for
    one row, or \<open>None\<close> where the write raises (a \<^verbatim>\<open>UnicodeEncodeError\<close> for a
    string with a lone surrogate);
  \<^item> \<open>py_str\<close>, the text of a value inside the printed f-string, or \<open>None\<close> where
    printing it raises (a lone surrogate again).

  Every existing file is taken to be readable, every path writable, and the two paths
  printable.
\<close>

datatype load_result =
    Document json
  | JSONDecodeError string
  | UncaughtLoadError

record outcome =
  files :: "string \<rightharpoonup> string"
  stdout :: "string list"
  status :: nat

text \<open>
  \<^verbatim>\<open>writer.writerows(rows)\<close> on the open file that already holds \<open>written\<close>: each
  row is encoded as it is written, so the first row that cannot be written ends the loop
  with the rows before it in place (closing the file flushes them). The flag says whether
  every row was written.
\<close>

fun writerows :: "(row \<Rightarrow> string option) \<Rightarrow> row list \<Rightarrow> string \<Rightarrow> string \<times> bool" where
  "writerows write_row [] written = (written, True)"
| "writerows write_row (r # rest) written =
     (case write_row r of
        None \<Rightarrow> (written, False)
      | Some line \<Rightarrow> writerows write_row rest (written @ line))"

definition digit_char :: "nat \<Rightarrow> char" where
  "digit_char d = char_of (48 + d)"

text \<open>\<^verbatim>\<open>str(n)\<close> of a length.\<close>

function show_nat :: "nat \<Rightarrow> string" where
  "show_nat n = (if n < 10 then [digit_char n] else show_nat (n div 10) @ [digit_char (n mod 10)])"
  by pat_completeness auto
termination
  by (relation "measure id") auto

declare show_nat.simps [simp del]

definition quote :: "string \<Rightarrow> string" where
  "quote s = [CHR 0x27] @ s @ [CHR 0x27]"

definition csv_header :: string where
  "csv_header =
     ''Level,Department_Code,Department_Name,Agency_Code,Agency_Name,'' @
     ''Sub_Agency_Code,Sub_Agency_Name,House,Increase,Decrease,Net,Senate'' @
     [CHR 0x0D, CHR 0x0A]"

text \<open>
  The two paths: \<^verbatim>\<open>sys.argv[1]\<close> and \<^verbatim>\<open>sys.argv[2]\<close> where given, else
  the fixed file names.
\<close>

definition input_file :: "string list \<Rightarrow> string" where
  "input_file argv = (if length argv > 1 then argv ! 1 else ''2026.json'')"

definition output_file :: "string list \<Rightarrow> string" where
  "output_file argv = (if length argv > 2 then argv ! 2 else ''2026.csv'')"

text \<open>
  The branches of \<^verbatim>\<open>main\<close>, in source order: the two \<^verbatim>\<open>except\<close> clauses
  (file not found, invalid JSON), every other exception of the \<^verbatim>\<open>try\<close> block
  uncaught, an exception of the flattener uncaught, then \<^verbatim>\<open>if rows:\<close> with the
  write (the file is opened with mode \<^verbatim>\<open>'w'\<close>, so what it held is replaced, and
  what was written stays when a row raises) and the two prints after it, else the warning.
\<close>

definition main ::
  "(string \<Rightarrow> load_result) \<Rightarrow> (row \<Rightarrow> string option) \<Rightarrow> (json \<Rightarrow> string option) \<Rightarrow>
     string list \<Rightarrow> (string \<rightharpoonup> string) \<Rightarrow> outcome" where
  "main json_load write_row py_str argv fs =
     (let out0 = [''Reading from: '' @ input_file argv]
      in case fs (input_file argv) of
           None \<Rightarrow>
             \<lparr>files = fs,
              stdout = out0 @ [''Error: File '' @ quote (input_file argv) @ '' not found''],
              status = 1\<rparr>
         | Some bytes \<Rightarrow>
            (case json_load bytes of
               JSONDecodeError e \<Rightarrow>
                 \<lparr>files = fs,
                  stdout = out0 @
                    [''Error: Invalid JSON in '' @ quote (input_file argv) @ '': '' @ e],
                  status = 1\<rparr>
             | UncaughtLoadError \<Rightarrow> \<lparr>files = fs, stdout = out0, status = 1\<rparr>
             | Document data \<Rightarrow>
                (case flatten_json_to_rows data of
                   Inl exn \<Rightarrow> \<lparr>files = fs, stdout = out0, status = 1\<rparr>
                 | Inr rows \<Rightarrow>
                    (let out1 = out0 @ [''Converted '' @ show_nat (length rows) @ '' rows'']
                     in if rows \<noteq> [] then
                          (case writerows write_row rows csv_header of
                             (written, False) \<Rightarrow>
                               \<lparr>files = fs(output_file argv \<mapsto> written),
                                stdout = out1, status = 1\<rparr>
                           | (written, True) \<Rightarrow>
                              (let fs1 = fs(output_file argv \<mapsto> written);
                                   out2 = out1 @ [''Successfully wrote to: '' @ output_file argv]
                               in case bind_res
                                         (py_get data ''COMMITTEE_REPORT_HBN_4058'' (JObj []))
                                         (\<lambda>report.
                                            py_get report ''unit'' (JStr ''Thousand Pesos'')) of
                                    Inl exn \<Rightarrow> \<lparr>files = fs1, stdout = out2, status = 1\<rparr>
                                  | Inr unit \<Rightarrow>
                                     (case py_str unit of
                                        None \<Rightarrow> \<lparr>files = fs1, stdout = out2, status = 1\<rparr>
                                      | Some s \<Rightarrow>
                                         \<lparr>files = fs1,
                                          stdout = out2 @
                                            [[CHR 0x0A] @ ''Note: All amounts are in '' @ s],
                                          status = 0\<rparr>)))
                        else
                          \<lparr>files = fs,
                           stdout = out1 @ [''Warning: No data to write''],
                           status = 0\<rparr>))))"

section \<open>The document as the specification describes it\<close>

text \<open>
  The specification speaks of nodes (mappings), of a field of a node that defaults when
  absent, and of ordered sequences of child nodes. These are its accessors, total on
  every value.
\<close>

definition is_node :: "json \<Rightarrow> bool" where
  "is_node v = (case v of JObj kvs \<Rightarrow> True | _ \<Rightarrow> False)"

definition absent :: "string \<Rightarrow> json \<Rightarrow> bool" where
  "absent key v = (case v of JObj kvs \<Rightarrow> map_of kvs key = None | _ \<Rightarrow> False)"

definition field_or :: "json \<Rightarrow> string \<Rightarrow> json \<Rightarrow> json" where
  "field_or v key dflt =
     (case v of
        JObj kvs \<Rightarrow> (case map_of kvs key of Some x \<Rightarrow> x | None \<Rightarrow> dflt)
      | _ \<Rightarrow> dflt)"

definition seq_of :: "json \<Rightarrow> json list" where
  "seq_of v = (case v of JArr xs \<Rightarrow> xs | _ \<Rightarrow> [])"

definition entries_of :: "json \<Rightarrow> (string \<times> json) list" where
  "entries_of v = (case v of JObj kvs \<Rightarrow> kvs | _ \<Rightarrow> [])"

definition report_of :: "json \<Rightarrow> json" where
  "report_of data = field_or data ''COMMITTEE_REPORT_HBN_4058'' (JObj [])"

definition summary_entries :: "json \<Rightarrow> (string \<times> json) list" where
  "summary_entries data = entries_of (field_or (report_of data) ''summary'' (JObj []))"

definition departments_of :: "json \<Rightarrow> json list" where
  "departments_of data = seq_of (field_or (report_of data) ''DEPARTMENTS'' (JArr []))"

definition funds_of :: "json \<Rightarrow> json list" where
  "funds_of data = seq_of (field_or (report_of data) ''SPECIAL_PURPOSE_FUNDS'' (JArr []))"

definition agencies_of :: "json \<Rightarrow> json list" where
  "agencies_of parent = seq_of (field_or parent ''agencies'' (JArr []))"

definition sub_agencies_of :: "json \<Rightarrow> json list" where
  "sub_agencies_of agency = seq_of (field_or agency ''sub_agencies'' (JArr []))"

text \<open>
  A well-formed document: the root, the report and every node are mappings; the summary,
  where present, is a mapping of mappings; each of the child lists, where present, is a
  sequence. No field of any node is required, and no field's type is constrained.
\<close>

definition node_list :: "(json \<Rightarrow> bool) \<Rightarrow> json \<Rightarrow> string \<Rightarrow> bool" where
  "node_list ok parent key =
     (case field_or parent key (JArr []) of JArr xs \<Rightarrow> list_all ok xs | _ \<Rightarrow> False)"

definition wf_agency :: "json \<Rightarrow> bool" where
  "wf_agency a = (is_node a \<and> node_list is_node a ''sub_agencies'')"

definition wf_department :: "json \<Rightarrow> bool" where
  "wf_department d = (is_node d \<and> node_list wf_agency d ''agencies'')"

definition wf_fund :: "json \<Rightarrow> bool" where
  "wf_fund f = (is_node f \<and> node_list is_node f ''agencies'')"

definition wf_summary :: "json \<Rightarrow> bool" where
  "wf_summary report =
     (case field_or report ''summary'' (JObj []) of
        JObj kvs \<Rightarrow> list_all (\<lambda>kv. is_node (snd kv)) kvs
      | _ \<Rightarrow> False)"

definition wf_doc :: "json \<Rightarrow> bool" where
  "wf_doc data =
     (is_node data \<and> is_node (report_of data) \<and> wf_summary (report_of data) \<and>
      node_list wf_department (report_of data) ''DEPARTMENTS'' \<and>
      node_list wf_fund (report_of data) ''SPECIAL_PURPOSE_FUNDS'')"

text \<open>
  The nodes of the four traversed sub-trees, each with its ancestors, and their
  depth-first order: a parent before its children, siblings in document order.
\<close>

datatype tnode =
    SummaryEntry string json
  | DepartmentNode json
  | AgencyNode json json
  | SubAgencyNode json json json
  | FundNode json
  | SpfAgencyNode json json

fun node_of :: "tnode \<Rightarrow> json" where
  "node_of (SummaryEntry category values) = values"
| "node_of (DepartmentNode d) = d"
| "node_of (AgencyNode d a) = a"
| "node_of (SubAgencyNode d a s) = s"
| "node_of (FundNode f) = f"
| "node_of (SpfAgencyNode f a) = a"

definition agency_traversal :: "json \<Rightarrow> json \<Rightarrow> tnode list" where
  "agency_traversal d a = AgencyNode d a # map (SubAgencyNode d a) (sub_agencies_of a)"

definition department_traversal :: "json \<Rightarrow> tnode list" where
  "department_traversal d =
     DepartmentNode d # concat (map (agency_traversal d) (agencies_of d))"

definition fund_traversal :: "json \<Rightarrow> tnode list" where
  "fund_traversal f = FundNode f # map (SpfAgencyNode f) (agencies_of f)"

definition traversal :: "json \<Rightarrow> tnode list" where
  "traversal data =
     map (\<lambda>kv. SummaryEntry (fst kv) (snd kv)) (summary_entries data) @
     concat (map department_traversal (departments_of data)) @
     concat (map fund_traversal (funds_of data))"

definition node_count :: "json \<Rightarrow> nat" where
  "node_count data =
     length (summary_entries data) +
     length (departments_of data) +
     sum_list (map (\<lambda>d. length (agencies_of d)) (departments_of data)) +
     sum_list (map (\<lambda>d. sum_list (map (\<lambda>a. length (sub_agencies_of a)) (agencies_of d)))
                 (departments_of data)) +
     length (funds_of data) +
     sum_list (map (\<lambda>f. length (agencies_of f)) (funds_of data))"

text \<open>The row the specification prescribes for a node (section 4.1, passes 1 to 4).\<close>

definition blank :: json where
  "blank = JStr []"

definition code_of :: "json \<Rightarrow> json" where
  "code_of n = field_or n ''code'' blank"

definition name_of :: "json \<Rightarrow> json" where
  "name_of n = field_or n ''name'' blank"

definition new_row ::
  "string \<Rightarrow> json \<Rightarrow> json \<Rightarrow> json \<Rightarrow> json \<Rightarrow> json \<Rightarrow> json \<Rightarrow> json \<Rightarrow> row" where
  "new_row lvl dc dn ac an sc sn node =
     \<lparr>Level = lvl,
      Department_Code = dc, Department_Name = dn,
      Agency_Code = ac, Agency_Name = an,
      Sub_Agency_Code = sc, Sub_Agency_Name = sn,
      House = field_or node ''house'' (JInt 0),
      Increase = field_or node ''increase'' (JInt 0),
      Decrease = field_or node ''decrease'' (JInt 0),
      Net = field_or node ''net'' (JInt 0),
      Senate = field_or node ''senate'' (JInt 0)\<rparr>"

fun expected_row :: "tnode \<Rightarrow> row" where
  "expected_row (SummaryEntry category values) =
     new_row ''Summary'' blank (JStr category) blank blank blank blank values"
| "expected_row (DepartmentNode d) =
     new_row ''Department'' (code_of d) (name_of d) blank blank blank blank d"
| "expected_row (AgencyNode d a) =
     new_row ''Agency'' (code_of d) (name_of d) (code_of a) (name_of a) blank blank a"
| "expected_row (SubAgencyNode d a s) =
     new_row ''Sub-Agency'' (code_of d) (name_of d) (code_of a) (name_of a)
       (code_of s) (name_of s) s"
| "expected_row (FundNode f) =
     new_row ''Special Purpose Fund'' (code_of f) (name_of f) blank blank blank blank f"
| "expected_row (SpfAgencyNode f a) =
     new_row ''SPF Agency'' (code_of f) (name_of f) (code_of a) (name_of a) blank blank a"

text \<open>Every node in a position of the traversal, the ancestors too, is a mapping.\<close>

fun all_nodes :: "tnode \<Rightarrow> bool" where
  "all_nodes (SummaryEntry category values) = is_node values"
| "all_nodes (DepartmentNode d) = is_node d"
| "all_nodes (AgencyNode d a) = (is_node d \<and> is_node a)"
| "all_nodes (SubAgencyNode d a s) = (is_node d \<and> is_node a \<and> is_node s)"
| "all_nodes (FundNode f) = is_node f"
| "all_nodes (SpfAgencyNode f a) = (is_node f \<and> is_node a)"

text \<open>
  What a row owes to a node without a code or a name: the empty string in the code or name
  column of the node's own level.
\<close>

fun own_identity_defaults :: "tnode \<Rightarrow> row \<Rightarrow> bool" where
  "own_identity_defaults (SummaryEntry category values) r = True"
| "own_identity_defaults (DepartmentNode d) r =
     ((absent ''code'' d \<longrightarrow> Department_Code r = JStr []) \<and>
      (absent ''name'' d \<longrightarrow> Department_Name r = JStr []))"
| "own_identity_defaults (AgencyNode d a) r =
     ((absent ''code'' a \<longrightarrow> Agency_Code r = JStr []) \<and>
      (absent ''name'' a \<longrightarrow> Agency_Name r = JStr []))"
| "own_identity_defaults (SubAgencyNode d a s) r =
     ((absent ''code'' s \<longrightarrow> Sub_Agency_Code r = JStr []) \<and>
      (absent ''name'' s \<longrightarrow> Sub_Agency_Name r = JStr []))"
| "own_identity_defaults (FundNode f) r =
     ((absent ''code'' f \<longrightarrow> Department_Code r = JStr []) \<and>
      (absent ''name'' f \<longrightarrow> Department_Name r = JStr []))"
| "own_identity_defaults (SpfAgencyNode f a) r =
     ((absent ''code'' a \<longrightarrow> Agency_Code r = JStr []) \<and>
      (absent ''name'' a \<longrightarrow> Agency_Name r = JStr []))"

section \<open>Example documents and runs\<close>

text \<open>The scenario of section 8 of the specification.\<close>

definition scenario_document :: json where
  "scenario_document =
     JObj [(''COMMITTEE_REPORT_HBN_4058'', JObj
       [(''summary'', JObj
          [(''Total'', JObj
             [(''house'', JInt 100), (''senate'', JInt 120), (''increase'', JInt 20),
              (''decrease'', JInt 0), (''net'', JInt 20)])]),
        (''DEPARTMENTS'', JArr
          [JObj
             [(''code'', JStr ''A''), (''name'', JStr ''Dept A''), (''house'', JInt 50),
              (''agencies'', JArr
                 [JObj [(''code'', JStr ''A1''), (''name'', JStr ''Agency 1''),
                        (''house'', JInt 50)]])]])])]"

text \<open>
  A document with a node at each of the six levels, several of them without a code, a name
  or some of the amounts.
\<close>

definition sample_sub_agency :: json where
  "sample_sub_agency = JObj [(''name'', JStr ''Unit 1''), (''net'', JInt 5)]"

definition sample_agency :: json where
  "sample_agency =
     JObj [(''code'', JStr ''A1''), (''senate'', JInt 7),
           (''sub_agencies'', JArr [sample_sub_agency])]"

definition sample_department :: json where
  "sample_department =
     JObj [(''code'', JStr ''A''), (''name'', JStr ''Dept A''), (''house'', JInt 50),
           (''agencies'', JArr [sample_agency])]"

definition sample_fund_agency :: json where
  "sample_fund_agency = JObj [(''code'', JStr ''F1''), (''name'', JStr ''Fund Agency 1'')]"

definition sample_fund :: json where
  "sample_fund =
     JObj [(''code'', JStr ''F''), (''name'', JStr ''Fund F''), (''increase'', JInt 3),
           (''agencies'', JArr [sample_fund_agency])]"

definition sample_document :: json where
  "sample_document =
     JObj [(''COMMITTEE_REPORT_HBN_4058'', JObj
       [(''summary'', JObj [(''Total'', JObj [(''house'', JInt 100)])]),
        (''DEPARTMENTS'', JArr [sample_department]),
        (''SPECIAL_PURPOSE_FUNDS'', JArr [sample_fund])])]"

text \<open>
  Stand-ins for the three library facilities, used only to run the examples. The loader
  knows two JSON texts and the single byte FF, which is not UTF-8 (the decoder raises
  \<^verbatim>\<open>UnicodeDecodeError\<close> on it); it reports every other content as invalid JSON
  with the decoder's message for a text that starts with no JSON value. The row writer
  writes the level alone, and \<open>sample_str\<close> knows strings. No example below reaches the
  writer or \<open>sample_str\<close>.
\<close>

definition sample_json_load :: "string \<Rightarrow> load_result" where
  "sample_json_load bytes =
     (if bytes = ''{}'' then Document (JObj [])
      else if bytes = ''{\"COMMITTEE_REPORT_HBN_4058\": {}}''
        then Document (JObj [(''COMMITTEE_REPORT_HBN_4058'', JObj [])])
      else if bytes = [CHR 0xFF] then UncaughtLoadError
      else JSONDecodeError ''Expecting value: line 1 column 1 (char 0)'')"

definition sample_write_row :: "row \<Rightarrow> string option" where
  "sample_write_row r = Some (Level r @ [CHR 0x0D, CHR 0x0A])"

definition sample_str :: "json \<Rightarrow> string option" where
  "sample_str v = (case v of JStr s \<Rightarrow> Some s | _ \<Rightarrow> Some ''?'')"

section \<open>The loops against the traversal\<close>

lemma bind_res_Inr_iff: "bind_res m f = Inr y \<longleftrightarrow> (\<exists>x. m = Inr x \<and> f x = Inr y)"
  by (cases m) (simp_all add: bind_res_def)

lemma bind_res_Inr: "bind_res (Inr x) f = f x"
  by (simp add: bind_res_def)

lemma py_get_Inr_iff: "py_get n k d = Inr v \<longleftrightarrow> is_node n \<and> v = field_or n k d"
  by (cases n) (auto simp: py_get_def is_node_def field_or_def)

lemma py_get_node: "is_node n \<Longrightarrow> py_get n k d = Inr (field_or n k d)"
  by (simp add: py_get_Inr_iff)

lemma append_row_Inr_iff:
  "append_row lvl dc dn ac an sc sn node rows = Inr rows' \<longleftrightarrow>
     is_node node \<and> rows' = rows @ [new_row lvl dc dn ac an sc sn node]"
  by (auto simp: append_row_def bind_res_Inr_iff py_get_Inr_iff new_row_def)

lemma py_iter_nodes:
  assumes "py_iter v = Inr xs" and "list_all is_node xs"
  shows "xs = seq_of v"
proof (cases v)
  case (JObj kvs)
  with assms show ?thesis by (cases kvs) (auto simp: py_iter_def seq_of_def is_node_def)
next
  case (JStr s)
  with assms show ?thesis by (cases s) (auto simp: py_iter_def seq_of_def is_node_def)
qed (use assms in \<open>auto simp: py_iter_def seq_of_def\<close>)

lemma summary_loop_Inr:
  "summary_loop es rows = Inr rows' \<Longrightarrow>
     list_all (\<lambda>kv. is_node (snd kv)) es \<and>
     rows' = rows @ map (\<lambda>kv. expected_row (SummaryEntry (fst kv) (snd kv))) es"
proof (induction es arbitrary: rows)
  case Nil
  then show ?case by simp
next
  case (Cons e es)
  obtain k v where e: "e = (k, v)" by (cases e)
  from Cons.prems obtain r1 where
    a: "append_row ''Summary'' (JStr '''') (JStr k) (JStr '''') (JStr '''') (JStr '''') (JStr '''') v rows = Inr r1"
    and b: "summary_loop es r1 = Inr rows'"
    by (auto simp: e bind_res_Inr_iff)
  from a have "is_node v" and r1: "r1 = rows @ [expected_row (SummaryEntry k v)]"
    by (simp_all add: append_row_Inr_iff blank_def)
  with Cons.IH [OF b] show ?case by (simp add: e)
qed

lemma sub_agency_loop_Inr:
  "sub_agency_loop (code_of d) (name_of d) (code_of a) (name_of a) xs rows = Inr rows' \<Longrightarrow>
     list_all is_node xs \<and> rows' = rows @ map (\<lambda>s. expected_row (SubAgencyNode d a s)) xs"
proof (induction xs arbitrary: rows)
  case Nil
  then show ?case by simp
next
  case (Cons x xs)
  from Cons.prems have n: "is_node x"
    and b: "sub_agency_loop (code_of d) (name_of d) (code_of a) (name_of a) xs
              (rows @ [expected_row (SubAgencyNode d a x)]) = Inr rows'"
    by (auto simp: bind_res_Inr_iff py_get_Inr_iff append_row_Inr_iff code_of_def name_of_def blank_def)
  from Cons.IH [OF b] n show ?case by simp
qed

lemma spf_agency_loop_Inr:
  "spf_agency_loop (code_of f) (name_of f) xs rows = Inr rows' \<Longrightarrow>
     list_all is_node xs \<and> rows' = rows @ map (\<lambda>a. expected_row (SpfAgencyNode f a)) xs"
proof (induction xs arbitrary: rows)
  case Nil
  then show ?case by simp
next
  case (Cons x xs)
  from Cons.prems have n: "is_node x"
    and b: "spf_agency_loop (code_of f) (name_of f) xs
              (rows @ [expected_row (SpfAgencyNode f x)]) = Inr rows'"
    by (auto simp: bind_res_Inr_iff py_get_Inr_iff append_row_Inr_iff code_of_def name_of_def blank_def)
  from Cons.IH [OF b] n show ?case by simp
qed

lemma agency_loop_Inr:
  "agency_loop (code_of d) (name_of d) xs rows = Inr rows' \<Longrightarrow>
     list_all is_node xs \<and>
     rows' = rows @ map expected_row (concat (map (agency_traversal d) xs))"
proof (induction xs arbitrary: rows)
  case Nil
  then show ?case by simp
next
  case (Cons x xs)
  from Cons.prems obtain subs r2 where n: "is_node x"
    and it: "py_iter (field_or x ''sub_agencies'' (JArr [])) = Inr subs"
    and sl: "sub_agency_loop (code_of d) (name_of d) (code_of x) (name_of x) subs
               (rows @ [expected_row (AgencyNode d x)]) = Inr r2"
    and b: "agency_loop (code_of d) (name_of d) xs r2 = Inr rows'"
    by (auto simp: bind_res_Inr_iff py_get_Inr_iff append_row_Inr_iff code_of_def name_of_def blank_def)
  from sub_agency_loop_Inr [OF sl] have sn: "list_all is_node subs"
    and r2: "r2 = rows @ [expected_row (AgencyNode d x)] @ map (\<lambda>s. expected_row (SubAgencyNode d x s)) subs"
    by simp_all
  from py_iter_nodes [OF it sn] have "subs = sub_agencies_of x"
    by (simp add: sub_agencies_of_def)
  with r2 have "r2 = rows @ map expected_row (agency_traversal d x)"
    by (simp add: agency_traversal_def comp_def)
  with Cons.IH [OF b] n show ?case by simp
qed

lemma department_loop_Inr:
  "department_loop xs rows = Inr rows' \<Longrightarrow>
     list_all is_node xs \<and>
     rows' = rows @ map expected_row (concat (map department_traversal xs))"
proof (induction xs arbitrary: rows)
  case Nil
  then show ?case by simp
next
  case (Cons x xs)
  from Cons.prems obtain ags r2 where n: "is_node x"
    and it: "py_iter (field_or x ''agencies'' (JArr [])) = Inr ags"
    and al: "agency_loop (code_of x) (name_of x) ags
               (rows @ [expected_row (DepartmentNode x)]) = Inr r2"
    and b: "department_loop xs r2 = Inr rows'"
    by (auto simp: bind_res_Inr_iff py_get_Inr_iff append_row_Inr_iff code_of_def name_of_def blank_def)
  from agency_loop_Inr [OF al] have an: "list_all is_node ags"
    and r2: "r2 = rows @ [expected_row (DepartmentNode x)] @ map expected_row (concat (map (agency_traversal x) ags))"
    by simp_all
  from py_iter_nodes [OF it an] have "ags = agencies_of x"
    by (simp add: agencies_of_def)
  with r2 have "r2 = rows @ map expected_row (department_traversal x)"
    by (simp add: department_traversal_def)
  with Cons.IH [OF b] n show ?case by simp
qed

lemma fund_loop_Inr:
  "fund_loop xs rows = Inr rows' \<Longrightarrow>
     list_all is_node xs \<and>
     rows' = rows @ map expected_row (concat (map fund_traversal xs))"
proof (induction xs arbitrary: rows)
  case Nil
  then show ?case by simp
next
  case (Cons x xs)
  from Cons.prems obtain ags r2 where n: "is_node x"
    and it: "py_iter (field_or x ''agencies'' (JArr [])) = Inr ags"
    and al: "spf_agency_loop (code_of x) (name_of x) ags
               (rows @ [expected_row (FundNode x)]) = Inr r2"
    and b: "fund_loop xs r2 = Inr rows'"
    by (auto simp: bind_res_Inr_iff py_get_Inr_iff append_row_Inr_iff code_of_def name_of_def blank_def)
  from spf_agency_loop_Inr [OF al] have an: "list_all is_node ags"
    and r2: "r2 = rows @ [expected_row (FundNode x)] @ map (\<lambda>a. expected_row (SpfAgencyNode x a)) ags"
    by simp_all
  from py_iter_nodes [OF it an] have "ags = agencies_of x"
    by (simp add: agencies_of_def)
  with r2 have "r2 = rows @ map expected_row (fund_traversal x)"
    by (simp add: fund_traversal_def comp_def)
  with Cons.IH [OF b] n show ?case by simp
qed

lemma py_items_Inr: "py_items v = Inr es \<Longrightarrow> es = entries_of v"
  by (cases v) (auto simp: py_items_def entries_of_def)

lemma flatten_Inr:
  assumes "flatten_json_to_rows data = Inr rows"
  shows "rows = map expected_row (traversal data)"
proof -
  from assms obtain es r1 ds r2 fs where
    it1: "py_items (field_or (report_of data) ''summary'' (JObj [])) = Inr es"
    and l1: "summary_loop es [] = Inr r1"
    and it2: "py_iter (field_or (report_of data) ''DEPARTMENTS'' (JArr [])) = Inr ds"
    and l2: "department_loop ds r1 = Inr r2"
    and it3: "py_iter (field_or (report_of data) ''SPECIAL_PURPOSE_FUNDS'' (JArr [])) = Inr fs"
    and l3: "fund_loop fs r2 = Inr rows"
    by (auto simp: flatten_json_to_rows_def bind_res_Inr_iff py_get_Inr_iff report_of_def)
  from py_items_Inr [OF it1] have es: "es = summary_entries data"
    by (simp add: summary_entries_def)
  from summary_loop_Inr [OF l1] have r1: "r1 = map (\<lambda>kv. expected_row (SummaryEntry (fst kv) (snd kv))) es"
    by simp
  from department_loop_Inr [OF l2] have dn: "list_all is_node ds"
    and r2: "r2 = r1 @ map expected_row (concat (map department_traversal ds))" by simp_all
  from py_iter_nodes [OF it2 dn] have ds: "ds = departments_of data"
    by (simp add: departments_of_def)
  from fund_loop_Inr [OF l3] have fn: "list_all is_node fs"
    and r3: "rows = r2 @ map expected_row (concat (map fund_traversal fs))" by simp_all
  from py_iter_nodes [OF it3 fn] have fs: "fs = funds_of data"
    by (simp add: funds_of_def)
  show ?thesis
    by (simp add: r3 r2 r1 es ds fs traversal_def comp_def)
qed


lemma append_row_node:
  "is_node node \<Longrightarrow>
     append_row lvl dc dn ac an sc sn node rows = Inr (rows @ [new_row lvl dc dn ac an sc sn node])"
  by (simp add: append_row_Inr_iff)

lemma node_listD:
  "node_list ok parent key \<Longrightarrow>
     \<exists>xs. field_or parent key (JArr []) = JArr xs \<and> list_all ok xs"
  by (auto simp: node_list_def split: json.splits)

lemma py_iter_JArr: "py_iter (JArr xs) = Inr xs"
  by (simp add: py_iter_def)

lemma summary_loop_ok:
  "list_all (\<lambda>kv. is_node (snd kv)) es \<Longrightarrow> \<exists>r. summary_loop es rows = Inr r"
proof (induction es arbitrary: rows)
  case Nil
  then show ?case by simp
next
  case (Cons e es)
  then show ?case
    by (cases e) (simp add: append_row_node bind_res_Inr)
qed

lemma sub_agency_loop_ok:
  "list_all is_node xs \<Longrightarrow> \<exists>r. sub_agency_loop dc dn ac an xs rows = Inr r"
  by (induction xs arbitrary: rows) (simp_all add: py_get_node append_row_node bind_res_Inr)

lemma spf_agency_loop_ok:
  "list_all is_node xs \<Longrightarrow> \<exists>r. spf_agency_loop fc fn xs rows = Inr r"
  by (induction xs arbitrary: rows) (simp_all add: py_get_node append_row_node bind_res_Inr)

lemma agency_loop_ok:
  "list_all wf_agency xs \<Longrightarrow> \<exists>r. agency_loop dc dn xs rows = Inr r"
proof (induction xs arbitrary: rows)
  case Nil
  then show ?case by simp
next
  case (Cons x xs)
  from Cons.prems have wx: "wf_agency x" and rest: "list_all wf_agency xs"
    by simp_all
  from wx have n: "is_node x" and nl: "node_list is_node x ''sub_agencies''"
    by (simp_all add: wf_agency_def)
  from node_listD [OF nl] obtain subs where
    f: "field_or x ''sub_agencies'' (JArr []) = JArr subs" and sn: "list_all is_node subs"
    by blast
  let ?ac = "field_or x ''code'' (JStr [])" and ?an = "field_or x ''name'' (JStr [])"
  let ?r1 = "rows @ [new_row ''Agency'' dc dn ?ac ?an (JStr []) (JStr []) x]"
  from sub_agency_loop_ok [OF sn] obtain r2 where
    "sub_agency_loop dc dn ?ac ?an subs ?r1 = Inr r2"
    by blast
  with n f Cons.IH [OF rest, of r2] show ?case
    by (simp add: py_get_node append_row_node bind_res_Inr py_iter_JArr)
qed

lemma department_loop_ok:
  "list_all wf_department xs \<Longrightarrow> \<exists>r. department_loop xs rows = Inr r"
proof (induction xs arbitrary: rows)
  case Nil
  then show ?case by simp
next
  case (Cons x xs)
  from Cons.prems have wx: "wf_department x" and rest: "list_all wf_department xs"
    by simp_all
  from wx have n: "is_node x" and nl: "node_list wf_agency x ''agencies''"
    by (simp_all add: wf_department_def)
  from node_listD [OF nl] obtain ags where
    f: "field_or x ''agencies'' (JArr []) = JArr ags" and an: "list_all wf_agency ags"
    by blast
  let ?dc = "field_or x ''code'' (JStr [])" and ?dn = "field_or x ''name'' (JStr [])"
  let ?r1 = "rows @ [new_row ''Department'' ?dc ?dn (JStr []) (JStr []) (JStr []) (JStr []) x]"
  from agency_loop_ok [OF an] obtain r2 where "agency_loop ?dc ?dn ags ?r1 = Inr r2"
    by blast
  with n f Cons.IH [OF rest, of r2] show ?case
    by (simp add: py_get_node append_row_node bind_res_Inr py_iter_JArr)
qed

lemma fund_loop_ok:
  "list_all wf_fund xs \<Longrightarrow> \<exists>r. fund_loop xs rows = Inr r"
proof (induction xs arbitrary: rows)
  case Nil
  then show ?case by simp
next
  case (Cons x xs)
  from Cons.prems have wx: "wf_fund x" and rest: "list_all wf_fund xs"
    by simp_all
  from wx have n: "is_node x" and nl: "node_list is_node x ''agencies''"
    by (simp_all add: wf_fund_def)
  from node_listD [OF nl] obtain ags where
    f: "field_or x ''agencies'' (JArr []) = JArr ags" and an: "list_all is_node ags"
    by blast
  let ?fc = "field_or x ''code'' (JStr [])" and ?fn = "field_or x ''name'' (JStr [])"
  let ?r1 = "rows @ [new_row ''Special Purpose Fund'' ?fc ?fn (JStr []) (JStr []) (JStr []) (JStr []) x]"
  from spf_agency_loop_ok [OF an] obtain r2 where "spf_agency_loop ?fc ?fn ags ?r1 = Inr r2"
    by blast
  with n f Cons.IH [OF rest, of r2] show ?case
    by (simp add: py_get_node append_row_node bind_res_Inr py_iter_JArr)
qed

lemma flatten_ok:
  assumes "wf_doc data"
  shows "\<exists>rows. flatten_json_to_rows data = Inr rows"
proof -
  let ?report = "report_of data"
  from assms have d: "is_node data" and r: "is_node ?report" and s: "wf_summary ?report"
    and dl: "node_list wf_department ?report ''DEPARTMENTS''"
    and fl: "node_list wf_fund ?report ''SPECIAL_PURPOSE_FUNDS''"
    by (simp_all add: wf_doc_def)
  from s obtain es where
    se: "field_or ?report ''summary'' (JObj []) = JObj es"
    and en: "list_all (\<lambda>kv. is_node (snd kv)) es"
    by (auto simp: wf_summary_def split: json.splits)
  from node_listD [OF dl] obtain ds where
    df: "field_or ?report ''DEPARTMENTS'' (JArr []) = JArr ds" and dn: "list_all wf_department ds"
    by blast
  from node_listD [OF fl] obtain fs where
    ff: "field_or ?report ''SPECIAL_PURPOSE_FUNDS'' (JArr []) = JArr fs" and fn: "list_all wf_fund fs"
    by blast
  from summary_loop_ok [OF en] obtain r1 where l1: "summary_loop es [] = Inr r1" by blast
  from department_loop_ok [OF dn] obtain r2 where l2: "department_loop ds r1 = Inr r2" by blast
  from fund_loop_ok [OF fn] obtain r3 where l3: "fund_loop fs r2 = Inr r3" by blast
  have "py_get data ''COMMITTEE_REPORT_HBN_4058'' (JObj []) = Inr ?report"
    using d by (simp add: py_get_node report_of_def)
  then have "flatten_json_to_rows data = Inr r3"
    using r se df ff l1 l2 l3
    by (simp add: flatten_json_to_rows_def bind_res_Inr py_get_node py_items_def py_iter_JArr)
  then show ?thesis by blast
qed

lemma sum_list_Suc:
  "sum_list (map (\<lambda>x. Suc (f x)) xs) = length xs + sum_list (map f xs)"
  by (induction xs) simp_all

lemma length_department_traversal:
  "length (department_traversal d) =
     Suc (length (agencies_of d) + sum_list (map (\<lambda>a. length (sub_agencies_of a)) (agencies_of d)))"
  by (simp add: department_traversal_def agency_traversal_def length_concat comp_def sum_list_Suc)

lemma length_traversal: "length (traversal data) = node_count data"
  by (simp add: traversal_def node_count_def length_concat comp_def
      length_department_traversal fund_traversal_def sum_list_Suc sum_list_addf)

section \<open>Well-formed documents, the program's runs and the examples\<close>

lemma flatten_wf:
  assumes "wf_doc data"
  shows "flatten_json_to_rows data = Inr (map expected_row (traversal data))"
proof -
  from flatten_ok [OF assms] obtain rows where r: "flatten_json_to_rows data = Inr rows"
    by blast
  from flatten_Inr [OF r] r show ?thesis by simp
qed

lemma node_list_seq:
  "node_list ok parent key \<Longrightarrow> x \<in> set (seq_of (field_or parent key (JArr []))) \<Longrightarrow> ok x"
  by (auto simp: node_list_def seq_of_def list_all_iff split: json.splits)

lemma wf_department_agency:
  "wf_department d \<Longrightarrow> a \<in> set (agencies_of d) \<Longrightarrow> wf_agency a"
  unfolding wf_department_def agencies_of_def by (blast intro: node_list_seq)

lemma wf_agency_sub_agency:
  "wf_agency a \<Longrightarrow> s \<in> set (sub_agencies_of a) \<Longrightarrow> is_node s"
  unfolding wf_agency_def sub_agencies_of_def by (blast intro: node_list_seq)

lemma wf_fund_agency:
  "wf_fund f \<Longrightarrow> a \<in> set (agencies_of f) \<Longrightarrow> is_node a"
  unfolding wf_fund_def agencies_of_def by (blast intro: node_list_seq)

lemma wf_doc_department:
  "wf_doc data \<Longrightarrow> d \<in> set (departments_of data) \<Longrightarrow> wf_department d"
  unfolding wf_doc_def departments_of_def by (blast intro: node_list_seq)

lemma wf_doc_fund:
  "wf_doc data \<Longrightarrow> f \<in> set (funds_of data) \<Longrightarrow> wf_fund f"
  unfolding wf_doc_def funds_of_def by (blast intro: node_list_seq)

lemma wf_doc_summary:
  "wf_doc data \<Longrightarrow> kv \<in> set (summary_entries data) \<Longrightarrow> is_node (snd kv)"
  by (auto simp: wf_doc_def wf_summary_def summary_entries_def entries_of_def list_all_iff
      split: json.splits)

lemma traversal_cases:
  assumes "t \<in> set (traversal data)"
  shows "(\<exists>kv \<in> set (summary_entries data). t = SummaryEntry (fst kv) (snd kv)) \<or>
         (\<exists>d \<in> set (departments_of data). t = DepartmentNode d \<or>
            (\<exists>a \<in> set (agencies_of d). t = AgencyNode d a \<or>
               (\<exists>s \<in> set (sub_agencies_of a). t = SubAgencyNode d a s))) \<or>
         (\<exists>f \<in> set (funds_of data). t = FundNode f \<or>
            (\<exists>a \<in> set (agencies_of f). t = SpfAgencyNode f a))"
  using assms
  by (auto simp: traversal_def department_traversal_def agency_traversal_def fund_traversal_def)

lemma traversal_agency:
  "AgencyNode d a \<in> set (traversal data) \<Longrightarrow>
     d \<in> set (departments_of data) \<and> a \<in> set (agencies_of d)"
  by (drule traversal_cases) auto

lemma traversal_sub_agency:
  "SubAgencyNode d a s \<in> set (traversal data) \<Longrightarrow>
     d \<in> set (departments_of data) \<and> a \<in> set (agencies_of d) \<and> s \<in> set (sub_agencies_of a)"
  by (drule traversal_cases) auto

lemma traversal_spf_agency:
  "SpfAgencyNode f a \<in> set (traversal data) \<Longrightarrow>
     f \<in> set (funds_of data) \<and> a \<in> set (agencies_of f)"
  by (drule traversal_cases) auto

lemma traversal_fund:
  "f \<in> set (funds_of data) \<Longrightarrow> FundNode f \<in> set (traversal data)"
  by (auto simp: traversal_def fund_traversal_def)

lemma traversal_fund_agency:
  "f \<in> set (funds_of data) \<Longrightarrow> a \<in> set (agencies_of f) \<Longrightarrow>
     SpfAgencyNode f a \<in> set (traversal data)"
  by (auto simp: traversal_def fund_traversal_def)

lemma traversal_all_nodes:
  assumes "wf_doc data" and "t \<in> set (traversal data)"
  shows "all_nodes t"
proof -
  have S: "is_node (snd kv)" if "kv \<in> set (summary_entries data)" for kv
    using wf_doc_summary [OF assms(1) that] .
  have D: "wf_department d" if "d \<in> set (departments_of data)" for d
    using wf_doc_department [OF assms(1) that] .
  have F: "wf_fund f" if "f \<in> set (funds_of data)" for f
    using wf_doc_fund [OF assms(1) that] .
  have Dn: "is_node d" if "d \<in> set (departments_of data)" for d
    using D [OF that] by (simp add: wf_department_def)
  have Fn: "is_node f" if "f \<in> set (funds_of data)" for f
    using F [OF that] by (simp add: wf_fund_def)
  have A: "wf_agency a" if "d \<in> set (departments_of data)" "a \<in> set (agencies_of d)" for d a
    using wf_department_agency [OF D [OF that(1)] that(2)] .
  have An: "is_node a" if "d \<in> set (departments_of data)" "a \<in> set (agencies_of d)" for d a
    using A [OF that] by (simp add: wf_agency_def)
  have Sn: "is_node s"
    if "d \<in> set (departments_of data)" "a \<in> set (agencies_of d)" "s \<in> set (sub_agencies_of a)"
    for d a s
    using wf_agency_sub_agency [OF A [OF that(1,2)] that(3)] .
  have FAn: "is_node a" if "f \<in> set (funds_of data)" "a \<in> set (agencies_of f)" for f a
    using wf_fund_agency [OF F [OF that(1)] that(2)] .
  from traversal_cases [OF assms(2)] show ?thesis
    by (auto simp: Dn Fn An Sn FAn dest: S)
qed

lemma show_nat_0: "show_nat 0 = ''0''"
  by code_simp




lemma main_no_rows:
  "fs (input_file argv) = Some bytes \<Longrightarrow> json_load bytes = Document data \<Longrightarrow>
   flatten_json_to_rows data = Inr [] \<Longrightarrow>
     main json_load write_row py_str argv fs =
       \<lparr>files = fs,
        stdout = [''Reading from: '' @ input_file argv, ''Converted 0 rows'',
                  ''Warning: No data to write''],
        status = 0\<rparr>"
  by (simp add: main_def show_nat_0)

text \<open>
  The one run that leaves a file with the header alone: there are rows, and the first of
  them cannot be written.
\<close>

lemma main_first_row_unwritable:
  "fs (input_file argv) = Some bytes \<Longrightarrow> json_load bytes = Document data \<Longrightarrow>
   flatten_json_to_rows data = Inr (r # rest) \<Longrightarrow> write_row r = None \<Longrightarrow>
     main json_load write_row py_str argv fs =
       \<lparr>files = fs(output_file argv \<mapsto> csv_header),
        stdout = [''Reading from: '' @ input_file argv,
                  ''Converted '' @ show_nat (Suc (length rest)) @ '' rows''],
        status = 1\<rparr>"
  by (simp add: main_def)

lemma sample_rows:
  "flatten_json_to_rows sample_document = Inr
    [\<lparr>Level = ''Summary'', Department_Code = JStr [], Department_Name = JStr ''Total'',
       Agency_Code = JStr [], Agency_Name = JStr [], Sub_Agency_Code = JStr [],
       Sub_Agency_Name = JStr [], House = JInt 100, Increase = JInt 0, Decrease = JInt 0,
       Net = JInt 0, Senate = JInt 0\<rparr>,
     \<lparr>Level = ''Department'', Department_Code = JStr ''A'', Department_Name = JStr ''Dept A'',
       Agency_Code = JStr [], Agency_Name = JStr [], Sub_Agency_Code = JStr [],
       Sub_Agency_Name = JStr [], House = JInt 50, Increase = JInt 0, Decrease = JInt 0,
       Net = JInt 0, Senate = JInt 0\<rparr>,
     \<lparr>Level = ''Agency'', Department_Code = JStr ''A'', Department_Name = JStr ''Dept A'',
       Agency_Code = JStr ''A1'', Agency_Name = JStr [], Sub_Agency_Code = JStr [],
       Sub_Agency_Name = JStr [], House = JInt 0, Increase = JInt 0, Decrease = JInt 0,
       Net = JInt 0, Senate = JInt 7\<rparr>,
     \<lparr>Level = ''Sub-Agency'', Department_Code = JStr ''A'', Department_Name = JStr ''Dept A'',
       Agency_Code = JStr ''A1'', Agency_Name = JStr [], Sub_Agency_Code = JStr [],
       Sub_Agency_Name = JStr ''Unit 1'', House = JInt 0, Increase = JInt 0,
       Decrease = JInt 0, Net = JInt 5, Senate = JInt 0\<rparr>,
     \<lparr>Level = ''Special Purpose Fund'', Department_Code = JStr ''F'',
       Department_Name = JStr ''Fund F'', Agency_Code = JStr [], Agency_Name = JStr [],
       Sub_Agency_Code = JStr [], Sub_Agency_Name = JStr [], House = JInt 0,
       Increase = JInt 3, Decrease = JInt 0, Net = JInt 0, Senate = JInt 0\<rparr>,
     \<lparr>Level = ''SPF Agency'', Department_Code = JStr ''F'', Department_Name = JStr ''Fund F'',
       Agency_Code = JStr ''F1'', Agency_Name = JStr ''Fund Agency 1'',
       Sub_Agency_Code = JStr [], Sub_Agency_Name = JStr [], House = JInt 0,
       Increase = JInt 0, Decrease = JInt 0, Net = JInt 0, Senate = JInt 0\<rparr>]"
  by code_simp

lemma sample_wf: "wf_doc sample_document"
  by code_simp

lemma sample_traversal:
  "traversal sample_document =
     [SummaryEntry ''Total'' (JObj [(''house'', JInt 100)]),
      DepartmentNode sample_department,
      AgencyNode sample_department sample_agency,
      SubAgencyNode sample_department sample_agency sample_sub_agency,
      FundNode sample_fund,
      SpfAgencyNode sample_fund sample_fund_agency]"
  by code_simp

lemma sample_funds: "funds_of sample_document = [sample_fund]"
  by code_simp

lemma sample_fund_agencies: "agencies_of sample_fund = [sample_fund_agency]"
  by code_simp

lemma sample_length: "length (traversal sample_document) = 6"
  by (simp add: sample_traversal)

lemma absent_field_or: "absent key n \<Longrightarrow> field_or n key dflt = dflt"
  by (cases n) (simp_all add: absent_def field_or_def)

lemma py_get_absent: "map_of kvs key = None \<Longrightarrow> py_get (JObj kvs) key dflt = Inr dflt"
  by (simp add: py_get_def)

lemma expected_row_amounts:
  "House (expected_row t) = field_or (node_of t) ''house'' (JInt 0) \<and>
   Increase (expected_row t) = field_or (node_of t) ''increase'' (JInt 0) \<and>
   Decrease (expected_row t) = field_or (node_of t) ''decrease'' (JInt 0) \<and>
   Net (expected_row t) = field_or (node_of t) ''net'' (JInt 0) \<and>
   Senate (expected_row t) = field_or (node_of t) ''senate'' (JInt 0)"
  by (cases t) (simp_all add: new_row_def)

lemma absent_code: "absent ''code'' n \<Longrightarrow> code_of n = JStr []"
  by (simp add: code_of_def blank_def absent_field_or)

lemma absent_name: "absent ''name'' n \<Longrightarrow> name_of n = JStr []"
  by (simp add: name_of_def blank_def absent_field_or)

lemma flatten_without_report:
  "map_of kvs ''COMMITTEE_REPORT_HBN_4058'' = None \<Longrightarrow> flatten_json_to_rows (JObj kvs) = Inr []"
  by (simp add: flatten_json_to_rows_def bind_res_def py_get_def py_items_def py_iter_def)

lemma flatten_without_sections:
  "map_of kvs ''COMMITTEE_REPORT_HBN_4058'' = Some (JObj report) \<Longrightarrow>
   map_of report ''summary'' = None \<Longrightarrow> map_of report ''DEPARTMENTS'' = None \<Longrightarrow>
   map_of report ''SPECIAL_PURPOSE_FUNDS'' = None \<Longrightarrow>
     flatten_json_to_rows (JObj kvs) = Inr []"
  by (simp add: flatten_json_to_rows_def bind_res_def py_get_def py_items_def py_iter_def)

section \<open>The claims\<close>

text \<open>
  C1. For every well-formed document the flattener returns, and the number of rows is the
  number of summary entries, plus the departments, plus the agencies of all departments,
  plus the sub-agencies of all those agencies, plus the special purpose funds, plus the
  agencies of all funds (\<open>node_count\<close>); the rows are the rows of the nodes in traversal
  order: depth-first, a parent before its children, siblings in document order.
\<close>

theorem flatten_row_count_and_order:
  assumes "wf_doc data"
  shows "\<exists>rows. flatten_json_to_rows data = Inr rows \<and>
           length rows = node_count data \<and>
           rows = map expected_row (traversal data)"
  using flatten_wf [OF assms] by (simp add: length_traversal)

theorem flatten_row_count_and_order_witness:
  "wf_doc sample_document \<and> node_count sample_document = 6 \<and>
   (\<exists>rows. flatten_json_to_rows sample_document = Inr rows \<and>
      length rows = 6 \<and> rows = map expected_row (traversal sample_document))"
proof -
  have n: "node_count sample_document = 6" by code_simp
  from flatten_row_count_and_order [OF sample_wf] n sample_wf show ?thesis by simp
qed

text \<open>
  C2. For every special purpose fund of a well-formed document there is a row of level
  "Special Purpose Fund" whose department columns hold the fund's code and name, and for
  every agency of the fund a row of level "SPF Agency" with the fund's code and name in
  the department columns, the agency's code and name in the agency columns, and empty
  strings in both sub-agency columns.
\<close>

theorem special_purpose_fund_rows:
  assumes "wf_doc data"
  shows "\<exists>rows. flatten_json_to_rows data = Inr rows \<and>
     (\<forall>fund \<in> set (funds_of data).
        (\<exists>r \<in> set rows.
            Level r = ''Special Purpose Fund'' \<and>
            Inr (Department_Code r) = py_get fund ''code'' (JStr '''') \<and>
            Inr (Department_Name r) = py_get fund ''name'' (JStr '''')) \<and>
        (\<forall>agency \<in> set (agencies_of fund).
           \<exists>r \<in> set rows.
            Level r = ''SPF Agency'' \<and>
            Inr (Department_Code r) = py_get fund ''code'' (JStr '''') \<and>
            Inr (Department_Name r) = py_get fund ''name'' (JStr '''') \<and>
            Inr (Agency_Code r) = py_get agency ''code'' (JStr '''') \<and>
            Inr (Agency_Name r) = py_get agency ''name'' (JStr '''') \<and>
            Sub_Agency_Code r = JStr '''' \<and> Sub_Agency_Name r = JStr ''''))"
proof -
  let ?rows = "map expected_row (traversal data)"
  have fund_row: "\<exists>r \<in> set ?rows.
            Level r = ''Special Purpose Fund'' \<and>
            Inr (Department_Code r) = py_get fund ''code'' (JStr '''') \<and>
            Inr (Department_Name r) = py_get fund ''name'' (JStr '''')"
    if f: "fund \<in> set (funds_of data)" for fund
  proof -
    from traversal_fund [OF f] have t: "FundNode fund \<in> set (traversal data)" .
    from traversal_all_nodes [OF assms t] have "is_node fund" by simp
    then have "Level (expected_row (FundNode fund)) = ''Special Purpose Fund'' \<and>
        Inr (Department_Code (expected_row (FundNode fund))) = py_get fund ''code'' (JStr '''') \<and>
        Inr (Department_Name (expected_row (FundNode fund))) = py_get fund ''name'' (JStr '''')"
      by (simp add: new_row_def py_get_node code_of_def name_of_def blank_def)
    moreover from t have "expected_row (FundNode fund) \<in> set ?rows"
      unfolding set_map by (rule imageI)
    ultimately show ?thesis by blast
  qed
  have agency_row: "\<exists>r \<in> set ?rows.
            Level r = ''SPF Agency'' \<and>
            Inr (Department_Code r) = py_get fund ''code'' (JStr '''') \<and>
            Inr (Department_Name r) = py_get fund ''name'' (JStr '''') \<and>
            Inr (Agency_Code r) = py_get agency ''code'' (JStr '''') \<and>
            Inr (Agency_Name r) = py_get agency ''name'' (JStr '''') \<and>
            Sub_Agency_Code r = JStr '''' \<and> Sub_Agency_Name r = JStr ''''"
    if f: "fund \<in> set (funds_of data)" and a: "agency \<in> set (agencies_of fund)"
    for fund agency
  proof -
    let ?t = "SpfAgencyNode fund agency"
    from traversal_fund_agency [OF f a] have t: "?t \<in> set (traversal data)" .
    from traversal_all_nodes [OF assms t] have "is_node fund" and "is_node agency"
      by simp_all
    then have "Level (expected_row ?t) = ''SPF Agency'' \<and>
        Inr (Department_Code (expected_row ?t)) = py_get fund ''code'' (JStr '''') \<and>
        Inr (Department_Name (expected_row ?t)) = py_get fund ''name'' (JStr '''') \<and>
        Inr (Agency_Code (expected_row ?t)) = py_get agency ''code'' (JStr '''') \<and>
        Inr (Agency_Name (expected_row ?t)) = py_get agency ''name'' (JStr '''') \<and>
        Sub_Agency_Code (expected_row ?t) = JStr '''' \<and>
        Sub_Agency_Name (expected_row ?t) = JStr ''''"
      by (simp add: new_row_def py_get_node code_of_def name_of_def blank_def)
    moreover from t have "expected_row ?t \<in> set ?rows"
      unfolding set_map by (rule imageI)
    ultimately show ?thesis by blast
  qed
  from fund_row agency_row flatten_wf [OF assms] show ?thesis
    by (intro exI [where x = ?rows]) blast
qed

theorem special_purpose_fund_rows_witness:
  "wf_doc sample_document \<and> sample_fund \<in> set (funds_of sample_document) \<and>
   sample_fund_agency \<in> set (agencies_of sample_fund) \<and>
   (\<exists>rows. flatten_json_to_rows sample_document = Inr rows \<and>
      (\<exists>r \<in> set rows. Level r = ''Special Purpose Fund'' \<and>
          Department_Code r = JStr ''F'' \<and> Department_Name r = JStr ''Fund F'') \<and>
      (\<exists>r \<in> set rows. Level r = ''SPF Agency'' \<and>
          Department_Code r = JStr ''F'' \<and> Department_Name r = JStr ''Fund F'' \<and>
          Agency_Code r = JStr ''F1'' \<and> Agency_Name r = JStr ''Fund Agency 1'' \<and>
          Sub_Agency_Code r = JStr '''' \<and> Sub_Agency_Name r = JStr ''''))"
proof -
  have g: "py_get sample_fund ''code'' (JStr '''') = Inr (JStr ''F'')"
    "py_get sample_fund ''name'' (JStr '''') = Inr (JStr ''Fund F'')"
    "py_get sample_fund_agency ''code'' (JStr '''') = Inr (JStr ''F1'')"
    "py_get sample_fund_agency ''name'' (JStr '''') = Inr (JStr ''Fund Agency 1'')"
    by (simp_all add: py_get_def sample_fund_def sample_fund_agency_def)
  from special_purpose_fund_rows [OF sample_wf] show ?thesis
    by (simp add: sample_wf sample_funds sample_fund_agencies g)
qed

text \<open>
  C3, as the program has it. When the input file parses and the flattener returns no
  rows, the program writes nothing: the file system is as it was (no header-only file is
  created, an existing output file keeps its content); it prints the count and the warning
  and exits with status 0.
\<close>

theorem empty_result_writes_nothing:
  assumes "fs (input_file argv) = Some text"
    and "json_load text = Document data"
    and "flatten_json_to_rows data = Inr []"
  shows "main json_load write_row py_str argv fs =
       \<lparr>files = fs,
        stdout = [''Reading from: '' @ input_file argv, ''Converted 0 rows'',
                  ''Warning: No data to write''],
        status = 0\<rparr>"
  using assms by (rule main_no_rows)

theorem empty_result_writes_nothing_witness:
  "[''2026.csv'' \<mapsto> ''kept'', ''2026.json'' \<mapsto> ''{}''] (input_file [''json_to_csv.py'']) =
     Some ''{}'' \<and>
   sample_json_load ''{}'' = Document (JObj []) \<and>
   flatten_json_to_rows (JObj []) = Inr [] \<and>
   main sample_json_load sample_write_row sample_str [''json_to_csv.py'']
       [''2026.csv'' \<mapsto> ''kept'', ''2026.json'' \<mapsto> ''{}''] =
     \<lparr>files = [''2026.csv'' \<mapsto> ''kept'', ''2026.json'' \<mapsto> ''{}''],
      stdout = [''Reading from: 2026.json'', ''Converted 0 rows'', ''Warning: No data to write''],
      status = 0\<rparr>"
proof -
  let ?fs = "[''2026.csv'' \<mapsto> ''kept'', ''2026.json'' \<mapsto> ''{}'']"
  have a: "?fs (input_file [''json_to_csv.py'']) = Some ''{}''"
    by (simp add: input_file_def)
  have b: "sample_json_load ''{}'' = Document (JObj [])"
    by (simp add: sample_json_load_def)
  have c: "flatten_json_to_rows (JObj []) = Inr []"
    by (simp add: flatten_json_to_rows_def bind_res_def py_get_def py_items_def py_iter_def)
  from empty_result_writes_nothing
    [where fs = ?fs and argv = "[''json_to_csv.py'']" and json_load = sample_json_load
       and write_row = sample_write_row and py_str = sample_str, OF a b c] a b c
  show ?thesis by (simp add: input_file_def)
qed

text \<open>
  C3, as stated, fails: with an input file that holds the empty object and no output file,
  the run ends with status 0 and there is still no output file, so no header line was
  written.
\<close>

theorem empty_result_header_only_counterexample:
  "sample_json_load ''{}'' = Document (JObj []) \<and>
   flatten_json_to_rows (JObj []) = Inr [] \<and>
   status (main sample_json_load sample_write_row sample_str [''json_to_csv.py'']
             [''2026.json'' \<mapsto> ''{}'']) = 0 \<and>
   files (main sample_json_load sample_write_row sample_str [''json_to_csv.py'']
            [''2026.json'' \<mapsto> ''{}'']) ''2026.csv'' = None \<and>
   files (main sample_json_load sample_write_row sample_str [''json_to_csv.py'']
            [''2026.json'' \<mapsto> ''{}'']) ''2026.csv'' \<noteq> Some csv_header"
proof -
  let ?fs = "[''2026.json'' \<mapsto> ''{}'']"
  have a: "?fs (input_file [''json_to_csv.py'']) = Some ''{}''"
    by (simp add: input_file_def)
  have b: "sample_json_load ''{}'' = Document (JObj [])"
    by (simp add: sample_json_load_def)
  have c: "flatten_json_to_rows (JObj []) = Inr []"
    by (simp add: flatten_json_to_rows_def bind_res_def py_get_def py_items_def py_iter_def)
  from main_no_rows
    [where fs = ?fs and argv = "[''json_to_csv.py'']" and json_load = sample_json_load
       and write_row = sample_write_row and py_str = sample_str, OF a b c] b c
  show ?thesis by (simp add: output_file_def)
qed

text \<open>
  C4. In the rows of a well-formed document, whatever the level of the node a row is for
  (the node at the same position of the traversal), each of the five amounts that the node
  does not have is 0 in the row; no field of any node is required for the flattener to
  return, and reading a field that a mapping does not have gives the default without
  raising.
\<close>

theorem missing_amounts_default_to_zero:
  assumes "wf_doc data"
  shows "(\<exists>rows. flatten_json_to_rows data = Inr rows \<and>
            length rows = length (traversal data) \<and>
            (\<forall>i < length rows.
               (absent ''house'' (node_of (traversal data ! i)) \<longrightarrow> House (rows ! i) = JInt 0) \<and>
               (absent ''increase'' (node_of (traversal data ! i)) \<longrightarrow>
                  Increase (rows ! i) = JInt 0) \<and>
               (absent ''decrease'' (node_of (traversal data ! i)) \<longrightarrow>
                  Decrease (rows ! i) = JInt 0) \<and>
               (absent ''net'' (node_of (traversal data ! i)) \<longrightarrow> Net (rows ! i) = JInt 0) \<and>
               (absent ''senate'' (node_of (traversal data ! i)) \<longrightarrow>
                  Senate (rows ! i) = JInt 0))) \<and>
         (\<forall>kvs key dflt. map_of kvs key = None \<longrightarrow> py_get (JObj kvs) key dflt = Inr dflt)"
proof -
  let ?rows = "map expected_row (traversal data)"
  have "flatten_json_to_rows data = Inr ?rows"
    by (rule flatten_wf [OF assms])
  moreover have "length ?rows = length (traversal data)"
    by simp
  moreover have "\<forall>i < length ?rows.
       (absent ''house'' (node_of (traversal data ! i)) \<longrightarrow> House (?rows ! i) = JInt 0) \<and>
       (absent ''increase'' (node_of (traversal data ! i)) \<longrightarrow> Increase (?rows ! i) = JInt 0) \<and>
       (absent ''decrease'' (node_of (traversal data ! i)) \<longrightarrow> Decrease (?rows ! i) = JInt 0) \<and>
       (absent ''net'' (node_of (traversal data ! i)) \<longrightarrow> Net (?rows ! i) = JInt 0) \<and>
       (absent ''senate'' (node_of (traversal data ! i)) \<longrightarrow> Senate (?rows ! i) = JInt 0)"
    by (simp add: expected_row_amounts absent_field_or)
  ultimately show ?thesis
    using py_get_absent by blast
qed

theorem missing_amounts_default_to_zero_witness:
  "wf_doc sample_document \<and>
   node_of (traversal sample_document ! 2) = sample_agency \<and>
   absent ''house'' sample_agency \<and>
   (\<exists>rows. flatten_json_to_rows sample_document = Inr rows \<and>
      length rows = 6 \<and> House (rows ! 2) = JInt 0) \<and>
   py_get (JObj []) ''house'' (JInt 0) = Inr (JInt 0)"
proof -
  have n: "node_of (traversal sample_document ! 2) = sample_agency"
    by (simp add: sample_traversal)
  have a: "absent ''house'' sample_agency"
    by (simp add: absent_def sample_agency_def)
  from missing_amounts_default_to_zero [OF sample_wf] obtain rows where
    r: "flatten_json_to_rows sample_document = Inr rows"
    and l: "length rows = length (traversal sample_document)"
    and h: "\<forall>i < length rows.
       absent ''house'' (node_of (traversal sample_document ! i)) \<longrightarrow> House (rows ! i) = JInt 0"
    and g: "\<forall>kvs key dflt. map_of kvs key = None \<longrightarrow> py_get (JObj kvs) key dflt = Inr dflt"
    by blast
  from l have l6: "length rows = 6" by (simp add: sample_length)
  with h n a have "House (rows ! 2) = JInt 0" by simp
  moreover from g have "py_get (JObj []) ''house'' (JInt 0) = Inr (JInt 0)" by simp
  ultimately show ?thesis using sample_wf n a r l6 by blast
qed

text \<open>
  C5. The scenario document of the specification gives exactly three rows, in this order:
  the Summary row of "Total" with the five amounts of the document, the Department row of
  "A"/"Dept A" with house 50, and the Agency row of "A1"/"Agency 1" under "A"/"Dept A"
  with house 50; every amount the document does not give is 0.
\<close>

theorem scenario_rows:
  "flatten_json_to_rows scenario_document = Inr
    [\<lparr>Level = ''Summary'', Department_Code = JStr '''', Department_Name = JStr ''Total'',
       Agency_Code = JStr '''', Agency_Name = JStr '''', Sub_Agency_Code = JStr '''',
       Sub_Agency_Name = JStr '''', House = JInt 100, Increase = JInt 20, Decrease = JInt 0,
       Net = JInt 20, Senate = JInt 120\<rparr>,
     \<lparr>Level = ''Department'', Department_Code = JStr ''A'', Department_Name = JStr ''Dept A'',
       Agency_Code = JStr '''', Agency_Name = JStr '''', Sub_Agency_Code = JStr '''',
       Sub_Agency_Name = JStr '''', House = JInt 50, Increase = JInt 0, Decrease = JInt 0,
       Net = JInt 0, Senate = JInt 0\<rparr>,
     \<lparr>Level = ''Agency'', Department_Code = JStr ''A'', Department_Name = JStr ''Dept A'',
       Agency_Code = JStr ''A1'', Agency_Name = JStr ''Agency 1'', Sub_Agency_Code = JStr '''',
       Sub_Agency_Name = JStr '''', House = JInt 50, Increase = JInt 0, Decrease = JInt 0,
       Net = JInt 0, Senate = JInt 0\<rparr>]"
  by (simp add: scenario_document_def flatten_json_to_rows_def bind_res_def py_get_def
      py_items_def py_iter_def append_row_def)




text \<open>
  C8. For a parsed document that is a mapping without the key COMMITTEE_REPORT_HBN_4058,
  or whose value under that key is a mapping without summary, DEPARTMENTS and
  SPECIAL_PURPOSE_FUNDS, the flattener returns the empty list without raising, and a run
  on an input file that parses to it takes the warning path: nothing is written, the
  warning is printed, the status is 0.
\<close>

theorem missing_sections_give_no_rows:
  assumes "map_of kvs ''COMMITTEE_REPORT_HBN_4058'' = None \<or>
           (\<exists>report. map_of kvs ''COMMITTEE_REPORT_HBN_4058'' = Some (JObj report) \<and>
              map_of report ''summary'' = None \<and> map_of report ''DEPARTMENTS'' = None \<and>
              map_of report ''SPECIAL_PURPOSE_FUNDS'' = None)"
  shows "flatten_json_to_rows (JObj kvs) = Inr [] \<and>
         (fs (input_file argv) = Some content \<and> json_load content = Document (JObj kvs) \<longrightarrow>
            main json_load write_row py_str argv fs =
              \<lparr>files = fs,
               stdout = [''Reading from: '' @ input_file argv, ''Converted 0 rows'',
                         ''Warning: No data to write''],
               status = 0\<rparr>)"
proof -
  from assms have "flatten_json_to_rows (JObj kvs) = Inr []"
    by (auto intro: flatten_without_report flatten_without_sections)
  then show ?thesis
    by (simp add: main_no_rows)
qed

theorem missing_sections_give_no_rows_witness:
  "map_of [] ''COMMITTEE_REPORT_HBN_4058'' = (None :: json option) \<and>
   flatten_json_to_rows (JObj []) = Inr [] \<and>
   map_of [(''COMMITTEE_REPORT_HBN_4058'', JObj [])] ''COMMITTEE_REPORT_HBN_4058'' =
     Some (JObj []) \<and>
   flatten_json_to_rows (JObj [(''COMMITTEE_REPORT_HBN_4058'', JObj [])]) = Inr [] \<and>
   main sample_json_load sample_write_row sample_str [''json_to_csv.py'']
       [''2026.json'' \<mapsto> ''{\"COMMITTEE_REPORT_HBN_4058\": {}}''] =
     \<lparr>files = [''2026.json'' \<mapsto> ''{\"COMMITTEE_REPORT_HBN_4058\": {}}''],
      stdout = [''Reading from: 2026.json'', ''Converted 0 rows'', ''Warning: No data to write''],
      status = 0\<rparr>"
proof -
  let ?content = "''{\"COMMITTEE_REPORT_HBN_4058\": {}}''"
  let ?kvs = "[(''COMMITTEE_REPORT_HBN_4058'', JObj [])]"
  let ?fs = "[''2026.json'' \<mapsto> ?content]"
  let ?argv = "[''json_to_csv.py'']"
  have a: "map_of [] ''COMMITTEE_REPORT_HBN_4058'' = (None :: json option)"
    by simp
  have b: "map_of ?kvs ''COMMITTEE_REPORT_HBN_4058'' = Some (JObj [])"
    by simp
  have c: "?fs (input_file ?argv) = Some ?content"
    by (simp add: input_file_def)
  have d: "sample_json_load ?content = Document (JObj ?kvs)"
    by (simp add: sample_json_load_def)
  from a have "map_of [] ''COMMITTEE_REPORT_HBN_4058'' = None \<or>
           (\<exists>report. map_of [] ''COMMITTEE_REPORT_HBN_4058'' = Some (JObj report) \<and>
              map_of report ''summary'' = None \<and> map_of report ''DEPARTMENTS'' = None \<and>
              map_of report ''SPECIAL_PURPOSE_FUNDS'' = None)"
    by simp
  from missing_sections_give_no_rows [OF this]
  have r1: "flatten_json_to_rows (JObj []) = Inr []"
    by simp
  from b have "map_of ?kvs ''COMMITTEE_REPORT_HBN_4058'' = None \<or>
           (\<exists>report. map_of ?kvs ''COMMITTEE_REPORT_HBN_4058'' = Some (JObj report) \<and>
              map_of report ''summary'' = None \<and> map_of report ''DEPARTMENTS'' = None \<and>
              map_of report ''SPECIAL_PURPOSE_FUNDS'' = None)"
    by simp
  from missing_sections_give_no_rows
    [where kvs = ?kvs and fs = ?fs and argv = ?argv and content = ?content
       and json_load = sample_json_load and write_row = sample_write_row
       and py_str = sample_str, OF this] c d
  have r2: "flatten_json_to_rows (JObj ?kvs) = Inr []"
    and r3: "main sample_json_load sample_write_row sample_str ?argv ?fs =
      \<lparr>files = ?fs,
       stdout = [''Reading from: '' @ input_file ?argv, ''Converted 0 rows'',
                 ''Warning: No data to write''],
       status = 0\<rparr>"
    by simp_all
  from a b r1 r2 r3 show ?thesis
    by (simp add: input_file_def)
qed

text \<open>
  C9. In the rows of a well-formed document every row of level "Agency" is the row of an
  agency of a department and carries that department's code and name in the department
  columns; every row of level "Sub-Agency" is the row of a sub-agency of an agency of a
  department and carries the department's code and name in the department columns and the
  agency's in the agency columns; every row of level "SPF Agency" is the row of an agency
  of a fund and carries the fund's code and name in the department columns.
\<close>

theorem rows_carry_enclosing_identity:
  assumes "wf_doc data"
  shows "\<exists>rows. flatten_json_to_rows data = Inr rows \<and>
     length rows = length (traversal data) \<and>
     (\<forall>i < length rows.
        (Level (rows ! i) = ''Agency'' \<longrightarrow>
           (\<exists>d a. traversal data ! i = AgencyNode d a \<and>
              d \<in> set (departments_of data) \<and> a \<in> set (agencies_of d) \<and>
              Inr (Department_Code (rows ! i)) = py_get d ''code'' (JStr '''') \<and>
              Inr (Department_Name (rows ! i)) = py_get d ''name'' (JStr ''''))) \<and>
        (Level (rows ! i) = ''Sub-Agency'' \<longrightarrow>
           (\<exists>d a s. traversal data ! i = SubAgencyNode d a s \<and>
              d \<in> set (departments_of data) \<and> a \<in> set (agencies_of d) \<and>
              s \<in> set (sub_agencies_of a) \<and>
              Inr (Department_Code (rows ! i)) = py_get d ''code'' (JStr '''') \<and>
              Inr (Department_Name (rows ! i)) = py_get d ''name'' (JStr '''') \<and>
              Inr (Agency_Code (rows ! i)) = py_get a ''code'' (JStr '''') \<and>
              Inr (Agency_Name (rows ! i)) = py_get a ''name'' (JStr ''''))) \<and>
        (Level (rows ! i) = ''SPF Agency'' \<longrightarrow>
           (\<exists>f a. traversal data ! i = SpfAgencyNode f a \<and>
              f \<in> set (funds_of data) \<and> a \<in> set (agencies_of f) \<and>
              Inr (Department_Code (rows ! i)) = py_get f ''code'' (JStr '''') \<and>
              Inr (Department_Name (rows ! i)) = py_get f ''name'' (JStr ''''))))"
proof -
  let ?rows = "map expected_row (traversal data)"
  have row: "(Level (expected_row t) = ''Agency'' \<longrightarrow>
           (\<exists>d a. t = AgencyNode d a \<and>
              d \<in> set (departments_of data) \<and> a \<in> set (agencies_of d) \<and>
              Inr (Department_Code (expected_row t)) = py_get d ''code'' (JStr '''') \<and>
              Inr (Department_Name (expected_row t)) = py_get d ''name'' (JStr ''''))) \<and>
        (Level (expected_row t) = ''Sub-Agency'' \<longrightarrow>
           (\<exists>d a s. t = SubAgencyNode d a s \<and>
              d \<in> set (departments_of data) \<and> a \<in> set (agencies_of d) \<and>
              s \<in> set (sub_agencies_of a) \<and>
              Inr (Department_Code (expected_row t)) = py_get d ''code'' (JStr '''') \<and>
              Inr (Department_Name (expected_row t)) = py_get d ''name'' (JStr '''') \<and>
              Inr (Agency_Code (expected_row t)) = py_get a ''code'' (JStr '''') \<and>
              Inr (Agency_Name (expected_row t)) = py_get a ''name'' (JStr ''''))) \<and>
        (Level (expected_row t) = ''SPF Agency'' \<longrightarrow>
           (\<exists>f a. t = SpfAgencyNode f a \<and>
              f \<in> set (funds_of data) \<and> a \<in> set (agencies_of f) \<and>
              Inr (Department_Code (expected_row t)) = py_get f ''code'' (JStr '''') \<and>
              Inr (Department_Name (expected_row t)) = py_get f ''name'' (JStr '''')))"
    if t: "t \<in> set (traversal data)" for t
  proof (cases t)
    case (AgencyNode d a)
    with traversal_all_nodes [OF assms t] traversal_agency [of d a data] t show ?thesis
      by (simp add: new_row_def py_get_node code_of_def name_of_def blank_def)
  next
    case (SubAgencyNode d a s)
    with traversal_all_nodes [OF assms t] traversal_sub_agency [of d a s data] t show ?thesis
      by (simp add: new_row_def py_get_node code_of_def name_of_def blank_def)
  next
    case (SpfAgencyNode f a)
    with traversal_all_nodes [OF assms t] traversal_spf_agency [of f a data] t show ?thesis
      by (simp add: new_row_def py_get_node code_of_def name_of_def blank_def)
  qed (simp_all add: new_row_def)
  have "flatten_json_to_rows data = Inr ?rows"
    by (rule flatten_wf [OF assms])
  moreover have "length ?rows = length (traversal data)"
    by simp
  moreover have "\<forall>i < length ?rows.
        (Level (?rows ! i) = ''Agency'' \<longrightarrow>
           (\<exists>d a. traversal data ! i = AgencyNode d a \<and>
              d \<in> set (departments_of data) \<and> a \<in> set (agencies_of d) \<and>
              Inr (Department_Code (?rows ! i)) = py_get d ''code'' (JStr '''') \<and>
              Inr (Department_Name (?rows ! i)) = py_get d ''name'' (JStr ''''))) \<and>
        (Level (?rows ! i) = ''Sub-Agency'' \<longrightarrow>
           (\<exists>d a s. traversal data ! i = SubAgencyNode d a s \<and>
              d \<in> set (departments_of data) \<and> a \<in> set (agencies_of d) \<and>
              s \<in> set (sub_agencies_of a) \<and>
              Inr (Department_Code (?rows ! i)) = py_get d ''code'' (JStr '''') \<and>
              Inr (Department_Name (?rows ! i)) = py_get d ''name'' (JStr '''') \<and>
              Inr (Agency_Code (?rows ! i)) = py_get a ''code'' (JStr '''') \<and>
              Inr (Agency_Name (?rows ! i)) = py_get a ''name'' (JStr ''''))) \<and>
        (Level (?rows ! i) = ''SPF Agency'' \<longrightarrow>
           (\<exists>f a. traversal data ! i = SpfAgencyNode f a \<and>
              f \<in> set (funds_of data) \<and> a \<in> set (agencies_of f) \<and>
              Inr (Department_Code (?rows ! i)) = py_get f ''code'' (JStr '''') \<and>
              Inr (Department_Name (?rows ! i)) = py_get f ''name'' (JStr '''')))"
  proof (intro allI impI)
    fix i assume "i < length ?rows"
    then have i: "i < length (traversal data)" by simp
    then have "traversal data ! i \<in> set (traversal data)" by simp
    from row [OF this] i show "(Level (?rows ! i) = ''Agency'' \<longrightarrow>
           (\<exists>d a. traversal data ! i = AgencyNode d a \<and>
              d \<in> set (departments_of data) \<and> a \<in> set (agencies_of d) \<and>
              Inr (Department_Code (?rows ! i)) = py_get d ''code'' (JStr '''') \<and>
              Inr (Department_Name (?rows ! i)) = py_get d ''name'' (JStr ''''))) \<and>
        (Level (?rows ! i) = ''Sub-Agency'' \<longrightarrow>
           (\<exists>d a s. traversal data ! i = SubAgencyNode d a s \<and>
              d \<in> set (departments_of data) \<and> a \<in> set (agencies_of d) \<and>
              s \<in> set (sub_agencies_of a) \<and>
              Inr (Department_Code (?rows ! i)) = py_get d ''code'' (JStr '''') \<and>
              Inr (Department_Name (?rows ! i)) = py_get d ''name'' (JStr '''') \<and>
              Inr (Agency_Code (?rows ! i)) = py_get a ''code'' (JStr '''') \<and>
              Inr (Agency_Name (?rows ! i)) = py_get a ''name'' (JStr ''''))) \<and>
        (Level (?rows ! i) = ''SPF Agency'' \<longrightarrow>
           (\<exists>f a. traversal data ! i = SpfAgencyNode f a \<and>
              f \<in> set (funds_of data) \<and> a \<in> set (agencies_of f) \<and>
              Inr (Department_Code (?rows ! i)) = py_get f ''code'' (JStr '''') \<and>
              Inr (Department_Name (?rows ! i)) = py_get f ''name'' (JStr '''')))"
      by (simp del: expected_row.simps)
  qed
  ultimately show ?thesis by blast
qed

theorem rows_carry_enclosing_identity_witness:
  "wf_doc sample_document \<and>
   (\<exists>rows. flatten_json_to_rows sample_document = Inr rows \<and>
      Level (rows ! 2) = ''Agency'' \<and>
      Department_Code (rows ! 2) = JStr ''A'' \<and>
      Department_Name (rows ! 2) = JStr ''Dept A'' \<and>
      Level (rows ! 3) = ''Sub-Agency'' \<and>
      Department_Code (rows ! 3) = JStr ''A'' \<and>
      Department_Name (rows ! 3) = JStr ''Dept A'' \<and>
      Agency_Code (rows ! 3) = JStr ''A1'' \<and>
      Agency_Name (rows ! 3) = JStr [] \<and>
      Level (rows ! 5) = ''SPF Agency'' \<and>
      Department_Code (rows ! 5) = JStr ''F'' \<and>
      Department_Name (rows ! 5) = JStr ''Fund F'')"
proof -
  have g: "py_get sample_department ''code'' (JStr []) = Inr (JStr ''A'')"
    "py_get sample_department ''name'' (JStr []) = Inr (JStr ''Dept A'')"
    "py_get sample_agency ''code'' (JStr []) = Inr (JStr ''A1'')"
    "py_get sample_agency ''name'' (JStr []) = Inr (JStr [])"
    "py_get sample_fund ''code'' (JStr []) = Inr (JStr ''F'')"
    "py_get sample_fund ''name'' (JStr []) = Inr (JStr ''Fund F'')"
    by (simp_all add: py_get_def sample_department_def sample_agency_def sample_fund_def)
  from rows_carry_enclosing_identity [OF sample_wf] obtain rows where
    r: "flatten_json_to_rows sample_document = Inr rows"
    and l: "length rows = length (traversal sample_document)"
    and h: "\<forall>i < length rows.
        (Level (rows ! i) = ''Agency'' \<longrightarrow>
           (\<exists>d a. traversal sample_document ! i = AgencyNode d a \<and>
              Inr (Department_Code (rows ! i)) = py_get d ''code'' (JStr []) \<and>
              Inr (Department_Name (rows ! i)) = py_get d ''name'' (JStr []))) \<and>
        (Level (rows ! i) = ''Sub-Agency'' \<longrightarrow>
           (\<exists>d a s. traversal sample_document ! i = SubAgencyNode d a s \<and>
              Inr (Department_Code (rows ! i)) = py_get d ''code'' (JStr []) \<and>
              Inr (Department_Name (rows ! i)) = py_get d ''name'' (JStr []) \<and>
              Inr (Agency_Code (rows ! i)) = py_get a ''code'' (JStr []) \<and>
              Inr (Agency_Name (rows ! i)) = py_get a ''name'' (JStr []))) \<and>
        (Level (rows ! i) = ''SPF Agency'' \<longrightarrow>
           (\<exists>f a. traversal sample_document ! i = SpfAgencyNode f a \<and>
              Inr (Department_Code (rows ! i)) = py_get f ''code'' (JStr []) \<and>
              Inr (Department_Name (rows ! i)) = py_get f ''name'' (JStr [])))"
    by blast
  from r have lv: "Level (rows ! 2) = ''Agency''" "Level (rows ! 3) = ''Sub-Agency''"
    "Level (rows ! 5) = ''SPF Agency''"
    by (auto simp: sample_rows)
  from l have l6: "length rows = 6" by (simp add: sample_length)
  from h l6 have "(Level (rows ! 2) = ''Agency'' \<longrightarrow>
           (\<exists>d a. traversal sample_document ! 2 = AgencyNode d a \<and>
              Inr (Department_Code (rows ! 2)) = py_get d ''code'' (JStr []) \<and>
              Inr (Department_Name (rows ! 2)) = py_get d ''name'' (JStr [])))"
    by simp
  with lv have r2: "Department_Code (rows ! 2) = JStr ''A'' \<and>
      Department_Name (rows ! 2) = JStr ''Dept A''"
    by (auto simp: sample_traversal g)
  from h l6 have "(Level (rows ! 3) = ''Sub-Agency'' \<longrightarrow>
           (\<exists>d a s. traversal sample_document ! 3 = SubAgencyNode d a s \<and>
              Inr (Department_Code (rows ! 3)) = py_get d ''code'' (JStr []) \<and>
              Inr (Department_Name (rows ! 3)) = py_get d ''name'' (JStr []) \<and>
              Inr (Agency_Code (rows ! 3)) = py_get a ''code'' (JStr []) \<and>
              Inr (Agency_Name (rows ! 3)) = py_get a ''name'' (JStr [])))"
    by simp
  with lv have r3: "Department_Code (rows ! 3) = JStr ''A'' \<and>
      Department_Name (rows ! 3) = JStr ''Dept A'' \<and>
      Agency_Code (rows ! 3) = JStr ''A1'' \<and> Agency_Name (rows ! 3) = JStr []"
    by (auto simp: sample_traversal g)
  from h l6 have "(Level (rows ! 5) = ''SPF Agency'' \<longrightarrow>
           (\<exists>f a. traversal sample_document ! 5 = SpfAgencyNode f a \<and>
              Inr (Department_Code (rows ! 5)) = py_get f ''code'' (JStr []) \<and>
              Inr (Department_Name (rows ! 5)) = py_get f ''name'' (JStr [])))"
    by simp
  with lv have r5: "Department_Code (rows ! 5) = JStr ''F'' \<and>
      Department_Name (rows ! 5) = JStr ''Fund F''"
    by (auto simp: sample_traversal g)
  from sample_wf r lv r2 r3 r5 show ?thesis by blast
qed

text \<open>
  C10. In the rows of a well-formed document, the row of a department, agency, sub-agency,
  fund or fund agency that has no code (no name) has the empty string in the code (name)
  column of its own level (\<open>own_identity_defaults\<close>): the department columns for a
  department and for a fund, the agency columns for an agency and for a fund agency, the
  sub-agency columns for a sub-agency.
\<close>

theorem missing_identity_defaults_to_empty:
  assumes "wf_doc data"
  shows "\<exists>rows. flatten_json_to_rows data = Inr rows \<and>
     length rows = length (traversal data) \<and>
     (\<forall>i < length rows. own_identity_defaults (traversal data ! i) (rows ! i))"
proof -
  let ?rows = "map expected_row (traversal data)"
  have row: "own_identity_defaults t (expected_row t)" for t
    by (cases t) (simp_all add: new_row_def absent_code absent_name)
  have "flatten_json_to_rows data = Inr ?rows"
    by (rule flatten_wf [OF assms])
  moreover have "length ?rows = length (traversal data)"
    by simp
  moreover have "\<forall>i < length ?rows. own_identity_defaults (traversal data ! i) (?rows ! i)"
    by (simp add: row del: expected_row.simps)
  ultimately show ?thesis by blast
qed

theorem missing_identity_defaults_to_empty_witness:
  "wf_doc sample_document \<and>
   traversal sample_document ! 2 = AgencyNode sample_department sample_agency \<and>
   absent ''name'' sample_agency \<and>
   traversal sample_document ! 3 =
     SubAgencyNode sample_department sample_agency sample_sub_agency \<and>
   absent ''code'' sample_sub_agency \<and>
   (\<exists>rows. flatten_json_to_rows sample_document = Inr rows \<and>
      Agency_Name (rows ! 2) = JStr [] \<and> Sub_Agency_Code (rows ! 3) = JStr [])"
proof -
  have t2: "traversal sample_document ! 2 = AgencyNode sample_department sample_agency"
    and t3: "traversal sample_document ! 3 =
      SubAgencyNode sample_department sample_agency sample_sub_agency"
    by (simp_all add: sample_traversal)
  have a2: "absent ''name'' sample_agency"
    by (simp add: absent_def sample_agency_def)
  have a3: "absent ''code'' sample_sub_agency"
    by (simp add: absent_def sample_sub_agency_def)
  from missing_identity_defaults_to_empty [OF sample_wf] obtain rows where
    r: "flatten_json_to_rows sample_document = Inr rows"
    and l: "length rows = length (traversal sample_document)"
    and h: "\<forall>i < length rows. own_identity_defaults (traversal sample_document ! i) (rows ! i)"
    by blast
  from l have l6: "length rows = 6" by (simp add: sample_length)
  from h l6 have "own_identity_defaults (traversal sample_document ! 2) (rows ! 2)"
    by simp
  with t2 a2 have r2: "Agency_Name (rows ! 2) = JStr []" by simp
  from h l6 have "own_identity_defaults (traversal sample_document ! 3) (rows ! 3)"
    by simp
  with t3 a3 have r3: "Sub_Agency_Code (rows ! 3) = JStr []" by simp
  from sample_wf t2 t3 a2 a3 r r2 r3 show ?thesis by blast
qed

end
